theory Spec2Isabelle
  imports Main "HOL-Library.Word"
begin

unbundle bit_operations_syntax

section \<open>Values of the JavaScript runtime\<close>

text \<open>
  The adapter returns \<^verbatim>\<open>JSON.parse(jsonText) as CarAnalysis\<close>. The cast is erased at run
  time, so the value that travels through the program is whatever \<^verbatim>\<open>JSON.parse\<close> built:
  any JSON value. Numbers are kept as the bit pattern of the IEEE double they denote, an
  object as its list of properties. Strings are lists of characters in the Latin-1 range.
\<close>

datatype json =
    JNull
  | JBool bool
  | JNumber "64 word"
  | JString string
  | JArray "json list"
  | JObject "(string \<times> json) list"

text \<open>JavaScript truthiness, as used by \<^verbatim>\<open>!analysisResult\<close> and \<^verbatim>\<open>analysisResult && ...\<close>.\<close>

fun truthy :: "json \<Rightarrow> bool" where
  "truthy JNull = False"
| "truthy (JBool b) = b"
| "truthy (JNumber w) =
     (let m = w AND 0x7FFFFFFFFFFFFFFF in m \<noteq> 0 \<and> m \<le> 0x7FF0000000000000)"
| "truthy (JString s) = (s \<noteq> [])"
| "truthy (JArray xs) = True"
| "truthy (JObject kvs) = True"



text \<open>
  What a rejected promise carries: an \<^verbatim>\<open>Error\<close> with its message, or the
  \<^verbatim>\<open>ProgressEvent\<close> that \<^verbatim>\<open>reader.onerror\<close> passes to \<^verbatim>\<open>reject\<close> (it has no message).
\<close>

datatype thrown = JsError string | ProgressEvent

datatype jsfile = File (fileName: string) (fileType: string)

section \<open>The environment of the request adapter\<close>

datatype reader_outcome =
    DataUrl string       \<comment> \<open>loadend with a string in \<^verbatim>\<open>reader.result\<close>\<close>
  | NoStringResult       \<comment> \<open>loadend with \<^verbatim>\<open>reader.result\<close> not a string, no error event\<close>
  | ReaderError          \<comment> \<open>error event; it fires before loadend, so its reject wins\<close>

datatype schema_type = STRING

record response_schema =
  properties :: "(string \<times> schema_type) list"
  required :: "string list"

record inline_data =
  inlineBytes :: "string option"   \<comment> \<open>\<^verbatim>\<open>split(',')[1]\<close> is undefined without a comma\<close>
  mimeType :: string

record gen_request =
  reqModel :: string
  reqText :: string
  reqImage :: inline_data
  responseMimeType :: string
  responseSchema :: response_schema

datatype remote_outcome =
    RemoteThrew                 \<comment> \<open>\<^verbatim>\<open>generateContent\<close> rejects\<close>
  | Response "string option"    \<comment> \<open>\<^verbatim>\<open>response.text\<close>, which may be undefined\<close>

text \<open>
  Everything the adapter reads from outside the repository: the credential in
  \<^verbatim>\<open>process.env.API_KEY\<close>, the browser's \<^verbatim>\<open>FileReader\<close>, the remote model behind
  \<^verbatim>\<open>ai.models.generateContent\<close>, and the platform's \<^verbatim>\<open>JSON.parse\<close> (\<open>None\<close> when it
  throws a SyntaxError).
\<close>

record env =
  apiKey :: "string option"
  readAsDataURL :: "jsfile \<Rightarrow> reader_outcome"
  generateContent :: "gen_request \<Rightarrow> remote_outcome"
  jsonParse :: "string \<Rightarrow> json option"

datatype effect = FileRead jsfile | NetworkCall gen_request | ConsoleError

section \<open>services/geminiService.ts\<close>

text \<open>\<^verbatim>\<open>s.split(',')[1]\<close>: the text between the first and the second comma.\<close>

definition splitComma1 :: "string \<Rightarrow> string option" where
  "splitComma1 s =
     (case dropWhile (\<lambda>c. c \<noteq> CHR '','') s of
        [] \<Rightarrow> None
      | c # rest \<Rightarrow> Some (takeWhile (\<lambda>c. c \<noteq> CHR '','') rest))"

definition fileToGenerativePart :: "env \<Rightarrow> jsfile \<Rightarrow> thrown + inline_data" where
  "fileToGenerativePart e f =
     (case readAsDataURL e f of
        DataUrl s \<Rightarrow> Inr \<lparr>inlineBytes = splitComma1 s, mimeType = fileType f\<rparr>
      | NoStringResult \<Rightarrow> Inl (JsError ''Failed to read file as data URL.'')
      | ReaderError \<Rightarrow> Inl ProgressEvent)"

text \<open>\<^verbatim>\<open>String.prototype.trim\<close> on the Latin-1 range: tab, LF, VT, FF, CR, space, NBSP.\<close>

definition isWhiteSpace :: "char \<Rightarrow> bool" where
  "isWhiteSpace c = ((of_char c :: nat) \<in> set [9, 10, 11, 12, 13, 32, 160])"

definition trim :: "string \<Rightarrow> string" where
  "trim s = rev (dropWhile isWhiteSpace (rev (dropWhile isWhiteSpace s)))"

definition promptText :: string where
  "promptText = ''Analyze the provided image of a car. Even if only a part of the car is visible, identify its make, model, color, and estimated year of manufacture. If any information cannot be determined, state it as '' @ [CHR 0x27] @ ''Unknown'' @ [CHR 0x27] @ ''. Provide the response in the specified JSON format.''"

definition carSchema :: response_schema where
  "carSchema =
     \<lparr>properties = [(''make'', STRING), (''model'', STRING), (''color'', STRING), (''year'', STRING)],
      required = [''make'', ''model'', ''color'', ''year'']\<rparr>"

definition buildRequest :: "inline_data \<Rightarrow> gen_request" where
  "buildRequest imagePart =
     \<lparr>reqModel = ''gemini-2.5-flash'',
      reqText = promptText,
      reqImage = imagePart,
      responseMimeType = ''application/json'',
      responseSchema = carSchema\<rparr>"

definition notConfigured :: thrown where
  "notConfigured = JsError ''API_KEY is not configured.''"

definition analysisFailed :: thrown where
  "analysisFailed = JsError ''Failed to analyze image. The AI model could not process the request.''"

text \<open>\<^verbatim>\<open>!process.env.API_KEY\<close>: an undefined and an empty credential are both falsy.\<close>

definition keyMissing :: "env \<Rightarrow> bool" where
  "keyMissing e = (case apiKey e of None \<Rightarrow> True | Some k \<Rightarrow> k = [])"

text \<open>
  The adapter. It returns how the promise settles (\<open>Inl\<close>: rejected with that value) and
  the effects performed on the way, in order. The file is read before the \<^verbatim>\<open>try\<close> block,
  so a rejection of \<open>fileToGenerativePart\<close> passes through unchanged; everything thrown
  inside the block (the call, \<^verbatim>\<open>.trim()\<close> on an undefined text, \<^verbatim>\<open>JSON.parse\<close>) is
  logged and replaced by one fixed Error.
\<close>

definition analyzeCarImage :: "env \<Rightarrow> jsfile \<Rightarrow> (thrown + json) \<times> effect list" where
  "analyzeCarImage e imageFile =
     (if keyMissing e then (Inl notConfigured, [])
      else
        case fileToGenerativePart e imageFile of
          Inl ex \<Rightarrow> (Inl ex, [FileRead imageFile])
        | Inr imagePart \<Rightarrow>
            (let req = buildRequest imagePart in
             case generateContent e req of
               RemoteThrew \<Rightarrow>
                 (Inl analysisFailed, [FileRead imageFile, NetworkCall req, ConsoleError])
             | Response None \<Rightarrow>
                 (Inl analysisFailed, [FileRead imageFile, NetworkCall req, ConsoleError])
             | Response (Some txt) \<Rightarrow>
                 (case jsonParse e (trim txt) of
                    None \<Rightarrow>
                      (Inl analysisFailed, [FileRead imageFile, NetworkCall req, ConsoleError])
                  | Some result \<Rightarrow>
                      (Inr result, [FileRead imageFile, NetworkCall req]))))"

section \<open>App.tsx: the state of the component\<close>

text \<open>
  The five \<^verbatim>\<open>useState\<close> cells of \<^verbatim>\<open>App\<close>. \<open>None\<close> and \<open>JNull\<close> stand for \<^verbatim>\<open>null\<close>.
  An object URL is identified by the number under which the browser allocated it.
\<close>

type_synonym url = nat

record app_state =
  imageFile :: "jsfile option"
  previewUrl :: "url option"
  analysisResult :: json
  isLoading :: bool
  error :: "string option"

text \<open>
  The component together with what it shares with the browser: the object URLs that are
  allocated and not yet revoked, the counter that keeps \<^verbatim>\<open>URL.createObjectURL\<close> fresh, and
  the calls of \<open>analyzeCarImage\<close> that have been made and have not settled yet, each with
  the file it was given.
\<close>

record system =
  app :: app_state
  objectUrls :: "url list"
  nextUrl :: url
  inFlight :: "jsfile list"

definition initialApp :: app_state where
  "initialApp =
     \<lparr>imageFile = None, previewUrl = None, analysisResult = JNull,
      isLoading = False, error = None\<rparr>"

definition initialSystem :: system where
  "initialSystem = \<lparr>app = initialApp, objectUrls = [], nextUrl = 0, inFlight = []\<rparr>"

section \<open>App.tsx: the handlers\<close>

definition handleFileSelect :: "jsfile \<Rightarrow> system \<Rightarrow> system" where
  "handleFileSelect f sys =
     sys\<lparr>app := (app sys)\<lparr>imageFile := Some f,
                           previewUrl := Some (nextUrl sys),
                           analysisResult := JNull,
                           error := None\<rparr>,
         objectUrls := objectUrls sys @ [nextUrl sys],
         nextUrl := Suc (nextUrl sys)\<rparr>"

text \<open>
  \<open>handleScan\<close> up to its \<^verbatim>\<open>await\<close>: the guard, the three setters and the call of the
  adapter, which stays in flight.
\<close>

definition handleScan_begin :: "system \<Rightarrow> system" where
  "handleScan_begin sys =
     (case imageFile (app sys) of
        None \<Rightarrow> sys
      | Some f \<Rightarrow>
          sys\<lparr>app := (app sys)\<lparr>isLoading := True, error := None, analysisResult := JNull\<rparr>,
              inFlight := inFlight sys @ [f]\<rparr>)"

text \<open>\<^verbatim>\<open>err.message || 'An unknown error occurred.'\<close>\<close>

fun errorMessage :: "thrown \<Rightarrow> string" where
  "errorMessage (JsError m) = (if m = [] then ''An unknown error occurred.'' else m)"
| "errorMessage ProgressEvent = ''An unknown error occurred.''"

text \<open>
  \<open>handleScan\<close> after the \<^verbatim>\<open>await\<close>: the rest of the \<^verbatim>\<open>try\<close>, the \<^verbatim>\<open>catch\<close> and the
  \<^verbatim>\<open>finally\<close>, run on the state the component has when the promise settles.
\<close>

definition handleScan_resume :: "thrown + json \<Rightarrow> app_state \<Rightarrow> app_state" where
  "handleScan_resume outcome a =
     (case outcome of
        Inr result \<Rightarrow> a\<lparr>analysisResult := result\<rparr>
      | Inl err \<Rightarrow> a\<lparr>error := Some (errorMessage err)\<rparr>)\<lparr>isLoading := False\<rparr>"

definition resetState :: "system \<Rightarrow> system" where
  "resetState sys =
     sys\<lparr>app := (app sys)\<lparr>imageFile := None, previewUrl := None, analysisResult := JNull,
                           error := None, isLoading := False\<rparr>,
         objectUrls := (case previewUrl (app sys) of
                          Some u \<Rightarrow> removeAll u (objectUrls sys)
                        | None \<Rightarrow> objectUrls sys)\<rparr>"

section \<open>App.tsx: what is rendered\<close>

definition uploaderShown :: "app_state \<Rightarrow> bool" where
  "uploaderShown a = (imageFile a = None)"

definition removeButtonShown :: "app_state \<Rightarrow> bool" where
  "removeButtonShown a = (imageFile a \<noteq> None)"

definition scanButtonShown :: "app_state \<Rightarrow> bool" where
  "scanButtonShown a = (imageFile a \<noteq> None \<and> \<not> truthy (analysisResult a))"

definition scanButtonDisabled :: "app_state \<Rightarrow> bool" where
  "scanButtonDisabled a = isLoading a"

definition scanAnotherShown :: "app_state \<Rightarrow> bool" where
  "scanAnotherShown a = (imageFile a \<noteq> None \<and> truthy (analysisResult a))"

section \<open>Events\<close>

text \<open>
  What can happen to the component: the change event of the file input with the files
  chosen, a click on one of the three buttons, and the settling of the \<open>k\<close>-th call in
  flight, in the environment that call ran in. An event that the rendered page does not
  offer gives \<open>None\<close>.
\<close>

datatype event =
    FileChange "jsfile list"
  | ClickScan
  | ClickRemove
  | ClickScanAnother
  | Settle nat env

fun step :: "event \<Rightarrow> system \<Rightarrow> system option" where
  "step (FileChange files) sys =
     (if uploaderShown (app sys)
      then (case files of [] \<Rightarrow> Some sys | f # rest \<Rightarrow> Some (handleFileSelect f sys))
      else None)"
| "step ClickScan sys =
     (if scanButtonShown (app sys) \<and> \<not> scanButtonDisabled (app sys)
      then Some (handleScan_begin sys) else None)"
| "step ClickRemove sys =
     (if removeButtonShown (app sys) then Some (resetState sys) else None)"
| "step ClickScanAnother sys =
     (if scanAnotherShown (app sys) then Some (resetState sys) else None)"
| "step (Settle k e) sys =
     (if k < length (inFlight sys)
      then Some (sys\<lparr>app := handleScan_resume (fst (analyzeCarImage e (inFlight sys ! k))) (app sys),
                     inFlight := take k (inFlight sys) @ drop (Suc k) (inFlight sys)\<rparr>)
      else None)"

fun run :: "event list \<Rightarrow> system \<Rightarrow> system option" where
  "run [] sys = Some sys"
| "run (ev # evs) sys = (case step ev sys of None \<Rightarrow> None | Some sys' \<Rightarrow> run evs sys')"

text \<open>
  The states the page can be brought into from its initial state by events that satisfy
  \<open>allowed\<close>; the same run, checking \<open>allowed\<close> on the way, as a function.
\<close>

inductive reach :: "(event \<Rightarrow> system \<Rightarrow> bool) \<Rightarrow> system \<Rightarrow> bool"
  for allowed :: "event \<Rightarrow> system \<Rightarrow> bool" where
  reach_init: "reach allowed initialSystem"
| reach_step: "reach allowed sys \<Longrightarrow> allowed ev sys \<Longrightarrow> step ev sys = Some sys'
               \<Longrightarrow> reach allowed sys'"

fun runAllowed :: "(event \<Rightarrow> system \<Rightarrow> bool) \<Rightarrow> event list \<Rightarrow> system \<Rightarrow> system option" where
  "runAllowed allowed [] sys = Some sys"
| "runAllowed allowed (ev # evs) sys =
     (if allowed ev sys
      then (case step ev sys of None \<Rightarrow> None | Some sys' \<Rightarrow> runAllowed allowed evs sys')
      else None)"

definition anyEvent :: "event \<Rightarrow> system \<Rightarrow> bool" where
  "anyEvent ev sys = True"

text \<open>A reset is never clicked while \<open>isLoading\<close> is set: no call in flight is abandoned.\<close>

fun isReset :: "event \<Rightarrow> bool" where
  "isReset ClickRemove = True"
| "isReset ClickScanAnother = True"
| "isReset ev = False"

definition noAbandon :: "event \<Rightarrow> system \<Rightarrow> bool" where
  "noAbandon ev sys = (\<not> (isReset ev \<and> isLoading (app sys)))"

section \<open>Example inputs\<close>

text \<open>
  The files and response bodies of the scenarios. \<open>exampleParse\<close> lists the value of
  \<^verbatim>\<open>JSON.parse\<close> at each body used; on every other text of the examples it throws.
\<close>

definition carJpg :: jsfile where
  "carJpg = File ''car.jpg'' ''image/jpeg''"

definition blurryPng :: jsfile where
  "blurryPng = File ''blurry.png'' ''image/png''"

definition camryBody :: string where
  \<open>camryBody = ''{"make":"Toyota","model":"Camry","color":"Blue","year":"2021"}''\<close>

definition camry :: json where
  "camry = JObject [(''make'', JString ''Toyota''), (''model'', JString ''Camry''),
                    (''color'', JString ''Blue''), (''year'', JString ''2021'')]"

definition exampleParse :: "string \<Rightarrow> json option" where
  \<open>exampleParse =
     map_of [(camryBody, camry),
             (''{"make":"Toyota"}'', JObject [(''make'', JString ''Toyota'')]),
             (''[]'', JArray []),
             (''null'', JNull)]\<close>

definition exampleEnv :: "string option \<Rightarrow> remote_outcome \<Rightarrow> env" where
  "exampleEnv key remote =
     \<lparr>apiKey = key,
      readAsDataURL = (\<lambda>f. DataUrl ''data:image/jpeg;base64,/9j/4AAQSkZJRg==''),
      generateContent = (\<lambda>req. remote),
      jsonParse = exampleParse\<rparr>"

text \<open>
  States of the walk \<open>select car.jpg, scan, remove, select blurry.png, scan\<close>, in which the
  first call is still in flight when the image is removed.
\<close>

definition readyCar :: system where
  "readyCar =
     \<lparr>app = \<lparr>imageFile = Some carJpg, previewUrl = Some 0, analysisResult = JNull,
             isLoading = False, error = None\<rparr>,
      objectUrls = [0], nextUrl = 1, inFlight = []\<rparr>"

definition loadingCar :: system where
  "loadingCar =
     \<lparr>app = \<lparr>imageFile = Some carJpg, previewUrl = Some 0, analysisResult = JNull,
             isLoading = True, error = None\<rparr>,
      objectUrls = [0], nextUrl = 1, inFlight = [carJpg]\<rparr>"

definition abandonedIdle :: system where
  "abandonedIdle =
     \<lparr>app = \<lparr>imageFile = None, previewUrl = None, analysisResult = JNull,
             isLoading = False, error = None\<rparr>,
      objectUrls = [], nextUrl = 1, inFlight = [carJpg]\<rparr>"

definition readyBlurry :: system where
  "readyBlurry =
     \<lparr>app = \<lparr>imageFile = Some blurryPng, previewUrl = Some 1, analysisResult = JNull,
             isLoading = False, error = None\<rparr>,
      objectUrls = [1], nextUrl = 2, inFlight = [carJpg]\<rparr>"

definition loadingBlurry :: system where
  "loadingBlurry =
     \<lparr>app = \<lparr>imageFile = Some blurryPng, previewUrl = Some 1, analysisResult = JNull,
             isLoading = True, error = None\<rparr>,
      objectUrls = [1], nextUrl = 2, inFlight = [carJpg, blurryPng]\<rparr>"

text \<open>
  The first call settling in other places of the walk: rejected while car.jpg is still
  held, and resolved after the image was removed.
\<close>

definition failedCar :: system where
  "failedCar =
     \<lparr>app = \<lparr>imageFile = Some carJpg, previewUrl = Some 0, analysisResult = JNull,
             isLoading = False,
             error = Some ''Failed to analyze image. The AI model could not process the request.''\<rparr>,
      objectUrls = [0], nextUrl = 1, inFlight = []\<rparr>"

definition staleIdle :: system where
  "staleIdle =
     \<lparr>app = \<lparr>imageFile = None, previewUrl = None, analysisResult = camry,
             isLoading = False, error = None\<rparr>,
      objectUrls = [], nextUrl = 1, inFlight = []\<rparr>"

section \<open>Invariants\<close>

text \<open>
  Image and preview URL are set and cleared together, the only object URL allocated is the
  one of the image held, and \<open>isLoading\<close> is never set while no image is held.
\<close>

definition held_inv :: "system \<Rightarrow> bool" where
  "held_inv sys =
     ((imageFile (app sys) = None) = (previewUrl (app sys) = None) \<and>
      objectUrls sys = (case previewUrl (app sys) of None \<Rightarrow> [] | Some u \<Rightarrow> [u]) \<and>
      (imageFile (app sys) = None \<longrightarrow> \<not> isLoading (app sys)))"

text \<open>
  While no call is abandoned: at most one call is in flight, \<open>isLoading\<close> says whether one
  is, result and error are both null during it, and never both set.
\<close>

definition calm_inv :: "system \<Rightarrow> bool" where
  "calm_inv sys =
     (length (inFlight sys) \<le> 1 \<and>
      isLoading (app sys) = (inFlight sys \<noteq> []) \<and>
      (isLoading (app sys) \<longrightarrow> analysisResult (app sys) = JNull \<and> error (app sys) = None) \<and>
      (analysisResult (app sys) = JNull \<or> error (app sys) = None))"

section \<open>Auxiliary facts\<close>

lemmas adapter_defs = analyzeCarImage_def keyMissing_def fileToGenerativePart_def buildRequest_def
  splitComma1_def trim_def isWhiteSpace_def notConfigured_def analysisFailed_def

lemmas example_defs = exampleEnv_def exampleParse_def camryBody_def camry_def carJpg_def
  blurryPng_def readyCar_def loadingCar_def abandonedIdle_def readyBlurry_def loadingBlurry_def
  failedCar_def staleIdle_def

lemmas handler_defs = handleFileSelect_def handleScan_begin_def handleScan_resume_def
  resetState_def

lemmas render_defs = uploaderShown_def removeButtonShown_def scanButtonShown_def
  scanButtonDisabled_def scanAnotherShown_def

lemmas system_defs = initialSystem_def initialApp_def

lemma reach_runAllowed:
  "reach allowed sys \<Longrightarrow> runAllowed allowed evs sys = Some sys' \<Longrightarrow> reach allowed sys'"
proof (induction evs arbitrary: sys)
  case Nil
  then show ?case by simp
next
  case (Cons ev evs)
  from Cons.prems(2) have ok: "allowed ev sys"
    by (simp split: if_splits)
  from Cons.prems(2) ok obtain mid where mid: "step ev sys = Some mid"
    and rest: "runAllowed allowed evs mid = Some sys'"
    by (auto split: option.splits)
  from Cons.prems(1) ok mid have "reach allowed mid"
    by (rule reach_step)
  with rest show ?case
    by (rule Cons.IH[rotated])
qed

lemma held_inv_step:
  "held_inv sys \<Longrightarrow> step ev sys = Some sys' \<Longrightarrow> held_inv sys'"
  by (cases ev)
     (auto simp: held_inv_def handler_defs render_defs
           split: if_splits option.splits list.splits sum.splits)

lemma reach_held_inv: "reach allowed sys \<Longrightarrow> held_inv sys"
proof (induction rule: reach.induct)
  case reach_init
  show ?case by (simp add: held_inv_def system_defs)
next
  case (reach_step sys ev sys')
  then show ?case by (blast intro: held_inv_step)
qed

lemma calm_inv_step:
  "calm_inv sys \<Longrightarrow> noAbandon ev sys \<Longrightarrow> step ev sys = Some sys' \<Longrightarrow> calm_inv sys'"
  by (cases ev)
     (auto simp: calm_inv_def noAbandon_def handler_defs render_defs
           split: if_splits option.splits list.splits sum.splits)

lemma reach_calm_inv: "reach noAbandon sys \<Longrightarrow> calm_inv sys"
proof (induction rule: reach.induct)
  case reach_init
  show ?case by (simp add: calm_inv_def system_defs)
next
  case (reach_step sys ev sys')
  then show ?case by (blast intro: calm_inv_step)
qed

text \<open>The example states are the states of the walk they are named after.\<close>

lemma example_walk:
  "run [FileChange [carJpg]] initialSystem = Some readyCar"
  "run [ClickScan] readyCar = Some loadingCar"
  "run [ClickRemove] loadingCar = Some abandonedIdle"
  "run [FileChange [blurryPng]] abandonedIdle = Some readyBlurry"
  "run [ClickScan] readyBlurry = Some loadingBlurry"
  "run [Settle 0 (exampleEnv (Some ''secret'') RemoteThrew)] loadingCar = Some failedCar"
  "run [Settle 0 (exampleEnv (Some ''secret'') (Response (Some camryBody)))] abandonedIdle
     = Some staleIdle"
  by (simp_all add: adapter_defs example_defs handler_defs render_defs system_defs)

section \<open>The request adapter\<close>

text \<open>
  C4. When the credential is absent from the process configuration (undefined or empty),
  \<open>analyzeCarImage\<close> rejects with the configuration error before anything else happens:
  the list of effects is empty, so the image is not read or encoded and no request is sent.
\<close>

theorem missing_credential_fails_before_any_request:
  "apiKey e = None \<or> apiKey e = Some [] \<Longrightarrow>
   analyzeCarImage e f = (Inl (JsError ''API_KEY is not configured.''), [])"
  by (auto simp: analyzeCarImage_def keyMissing_def notConfigured_def)

theorem missing_credential_fails_before_any_request_witness:
  "(apiKey (exampleEnv None (Response (Some camryBody))) = None \<or>
    apiKey (exampleEnv None (Response (Some camryBody))) = Some []) \<and>
   analyzeCarImage (exampleEnv None (Response (Some camryBody))) carJpg =
     (Inl (JsError ''API_KEY is not configured.''), [])"
  using missing_credential_fails_before_any_request
          [of "exampleEnv None (Response (Some camryBody))" carJpg]
  by (simp add: exampleEnv_def)






section \<open>The handlers, one at a time\<close>

text \<open>
  C9. With no image file selected, \<open>handleScan\<close> returns at its guard: the state is the
  same afterwards, and nothing is added to the calls in flight, so the adapter is not called.
\<close>

theorem scan_without_image_is_noop:
  "imageFile (app sys) = None \<Longrightarrow> handleScan_begin sys = sys"
  by (simp add: handleScan_begin_def)

theorem scan_without_image_is_noop_witness:
  "imageFile (app initialSystem) = None \<and> handleScan_begin initialSystem = initialSystem"
  using scan_without_image_is_noop [of initialSystem]
  by (simp add: system_defs)

text \<open>
  C7. From every state, \<open>resetState\<close> leaves the component idle: image file, preview URL,
  analysis result and error message are null and the loading flag is off; the preview URL
  that was held is no longer allocated.
\<close>

theorem reset_yields_idle:
  "app (resetState sys) =
     \<lparr>imageFile = None, previewUrl = None, analysisResult = JNull,
      isLoading = False, error = None\<rparr> \<and>
   set (objectUrls (resetState sys)) \<inter> set_option (previewUrl (app sys)) = {}"
  by (cases "previewUrl (app sys)") (simp_all add: resetState_def)

section \<open>The component under events\<close>

text \<open>
  A call abandoned by a reset settles later: car.jpg is scanned and removed, blurry.png is
  selected, and then the answer for car.jpg arrives and becomes the result shown with
  blurry.png.
\<close>

theorem stale_result_lands_on_new_image:
  "run [FileChange [carJpg], ClickScan, ClickRemove, FileChange [blurryPng]] initialSystem
     = Some readyBlurry \<and>
   step (Settle 0 (exampleEnv (Some ''secret'') (Response (Some camryBody)))) readyBlurry
     = Some (readyBlurry\<lparr>app := (app readyBlurry)\<lparr>analysisResult := camry\<rparr>, inFlight := []\<rparr>) \<and>
   imageFile (app readyBlurry) = Some blurryPng \<and>
   inFlight readyBlurry = [carJpg] \<and>
   analysisResult (app readyBlurry) \<noteq> camry"
  by (simp add: adapter_defs example_defs handler_defs render_defs system_defs)

text \<open>
  C2, as the code has it. The completion of \<open>handleScan\<close> checks nothing: whenever a call
  in flight settles, in whatever state the component is by then, the loading flag is
  cleared and the result is written into \<open>analysisResult\<close> (or the message into \<open>error\<close>),
  the other of the two being left as it is. The image held, its preview URL and the
  allocated object URLs are not touched.
\<close>

theorem settle_writes_without_identity_check:
  assumes "step (Settle k e) sys = Some sys'"
  shows "imageFile (app sys') = imageFile (app sys) \<and>
         previewUrl (app sys') = previewUrl (app sys) \<and>
         objectUrls sys' = objectUrls sys \<and>
         \<not> isLoading (app sys') \<and>
         (case fst (analyzeCarImage e (inFlight sys ! k)) of
            Inr result \<Rightarrow>
              analysisResult (app sys') = result \<and> error (app sys') = error (app sys)
          | Inl err \<Rightarrow>
              error (app sys') = Some (errorMessage err) \<and>
              analysisResult (app sys') = analysisResult (app sys))"
  using assms
  by (auto simp: handleScan_resume_def split: if_splits sum.splits)

theorem settle_writes_without_identity_check_witness:
  "step (Settle 0 (exampleEnv (Some ''secret'') RemoteThrew)) loadingCar = Some failedCar \<and>
   imageFile (app failedCar) = imageFile (app loadingCar) \<and>
   previewUrl (app failedCar) = previewUrl (app loadingCar) \<and>
   \<not> isLoading (app failedCar) \<and>
   error (app failedCar) =
     Some ''Failed to analyze image. The AI model could not process the request.''"
proof -
  have s: "step (Settle 0 (exampleEnv (Some ''secret'') RemoteThrew)) loadingCar = Some failedCar"
    by (simp add: adapter_defs example_defs handler_defs)
  show ?thesis
    using s settle_writes_without_identity_check [OF s]
    by (simp add: failedCar_def)
qed




text \<open>
  With two calls in flight, the first rejecting and the second resolving leave an error
  message and a result side by side.
\<close>

theorem result_and_error_both_set:
  "run [FileChange [carJpg], ClickScan, ClickRemove, FileChange [blurryPng], ClickScan,
        Settle 0 (exampleEnv (Some ''secret'') RemoteThrew),
        Settle 0 (exampleEnv (Some ''secret'') (Response (Some camryBody)))] initialSystem =
     Some \<lparr>app = \<lparr>imageFile = Some blurryPng, previewUrl = Some 1, analysisResult = camry,
                  isLoading = False,
                  error = Some ''Failed to analyze image. The AI model could not process the request.''\<rparr>,
           objectUrls = [1], nextUrl = 2, inFlight = []\<rparr> \<and>
   camry \<noteq> JNull"
  by (simp add: adapter_defs example_defs handler_defs render_defs system_defs)

text \<open>
  C10, as the code has it. In every state reached without a reset while \<open>isLoading\<close> is
  set, the analysis result and the error message are never both non-null.
\<close>

theorem result_or_error_null_unless_abandoned:
  assumes "reach noAbandon sys"
  shows "analysisResult (app sys) = JNull \<or> error (app sys) = None"
  using reach_calm_inv [OF assms]
  by (simp add: calm_inv_def)

theorem result_or_error_null_unless_abandoned_witness:
  "reach noAbandon failedCar \<and> error (app failedCar) \<noteq> None \<and>
   analysisResult (app failedCar) = JNull"
proof -
  have r: "reach noAbandon failedCar"
    by (rule reach_runAllowed [OF reach_init, of _
          "[FileChange [carJpg], ClickScan, Settle 0 (exampleEnv (Some ''secret'') RemoteThrew)]"])
       (simp add: adapter_defs example_defs handler_defs render_defs system_defs noAbandon_def)
  show ?thesis
    using r result_or_error_null_unless_abandoned [OF r]
    by (simp add: failedCar_def)
qed

text \<open>
  C3. The preview handle (object URL) of a held image is released when the user resets and
  is not left allocated when the user selects a new image. In every reachable state the
  only object URL allocated is the preview URL of the image held; a reset revokes it,
  leaving none allocated; and the page accepts a selection only in states where none is
  allocated (the file input is rendered only while no image is held), so by the time a new
  image is selected the handle of the image before has been released.
\<close>

theorem preview_url_released_by_reset:
  assumes "reach anyEvent sys"
  shows "objectUrls sys = (case previewUrl (app sys) of None \<Rightarrow> [] | Some u \<Rightarrow> [u]) \<and>
         objectUrls (resetState sys) = [] \<and>
         (step (FileChange files) sys \<noteq> None \<longrightarrow> objectUrls sys = [])"
  using reach_held_inv [OF assms]
  by (auto simp: held_inv_def resetState_def uploaderShown_def split: option.splits)

theorem preview_url_released_by_reset_witness:
  "reach anyEvent loadingCar \<and> objectUrls loadingCar = [0] \<and>
   objectUrls (resetState loadingCar) = [] \<and> step (FileChange [blurryPng]) loadingCar = None"
proof -
  have r: "reach anyEvent loadingCar"
    by (rule reach_runAllowed [OF reach_init, of _ "[FileChange [carJpg], ClickScan]"])
       (simp add: example_defs handler_defs render_defs system_defs anyEvent_def)
  show ?thesis
    using r preview_url_released_by_reset [OF r, of "[blurryPng]"]
    by (simp add: example_defs render_defs)
qed

text \<open>
  C6. For every file the user selects, from any reachable state in which the page takes the
  selection, the resulting state is ready with exactly that file and a fresh preview URL:
  not loading, and with no result and no error, whatever result or error the state before
  contained.
\<close>

theorem file_select_yields_ready:
  assumes "reach anyEvent sys" and "step (FileChange (f # rest)) sys = Some sys'"
  shows "app sys' =
           \<lparr>imageFile = Some f, previewUrl = Some (nextUrl sys), analysisResult = JNull,
            isLoading = False, error = None\<rparr>"
  using reach_held_inv [OF assms(1)] assms(2)
  by (auto simp: held_inv_def handleFileSelect_def uploaderShown_def split: if_splits)

theorem file_select_yields_ready_witness:
  "reach anyEvent staleIdle \<and> analysisResult (app staleIdle) = camry \<and>
   step (FileChange [blurryPng]) staleIdle = Some (readyBlurry\<lparr>inFlight := []\<rparr>) \<and>
   app (readyBlurry\<lparr>inFlight := []\<rparr>) =
     \<lparr>imageFile = Some blurryPng, previewUrl = Some 1, analysisResult = JNull,
      isLoading = False, error = None\<rparr>"
proof -
  have r: "reach anyEvent staleIdle"
    by (rule reach_runAllowed [OF reach_init, of _
          "[FileChange [carJpg], ClickScan, ClickRemove,
            Settle 0 (exampleEnv (Some ''secret'') (Response (Some camryBody)))]"])
       (simp add: adapter_defs example_defs handler_defs render_defs system_defs anyEvent_def)
  have s: "step (FileChange [blurryPng]) staleIdle = Some (readyBlurry\<lparr>inFlight := []\<rparr>)"
    by (simp add: example_defs handler_defs render_defs)
  show ?thesis
    using r s file_select_yields_ready [OF r s]
    by (simp add: example_defs)
qed

end
